theory Spec2Isabelle
  imports Main "HOL-Library.AList" "HOL-Library.Multiset"
begin

text \<open>
  A model of the remote-shutdown system: the desktop service (the HTTP application with
  its authentication middleware and controllers, the Bluetooth serial server, the system
  service that runs the operating-system commands) and the mobile client (the HTTP and
  Bluetooth senders, the countdown button, the network scanner). Each source function is
  a HOL function of the same name; what a function reads from outside the program (the
  host, the network, the clock) is a parameter. The properties proved follow the
  definitions.
\<close>

section \<open>JavaScript strings\<close>

text \<open>
  Strings are lists of code units; the model covers the code units below 256, which
  \<^typ>\<open>char\<close> holds. \<open>String.prototype.trim\<close> removes white space and line terminators
  from both ends: of the code units below 256 these are TAB, LF, VT, FF, CR, SPACE and
  NBSP.
\<close>

definition isWhiteSpace :: "char \<Rightarrow> bool" where
  "isWhiteSpace c \<longleftrightarrow>
     c = CHR 0x09 \<or> c = CHR 0x0A \<or> c = CHR 0x0B \<or> c = CHR 0x0C \<or> c = CHR 0x0D \<or>
     c = CHR 0x20 \<or> c = CHR 0xA0"

definition trimStart :: "string \<Rightarrow> string" where
  "trimStart s = dropWhile isWhiteSpace s"

definition trimEnd :: "string \<Rightarrow> string" where
  "trimEnd s = rev (dropWhile isWhiteSpace (rev s))"

definition trim :: "string \<Rightarrow> string" where
  "trim s = trimEnd (trimStart s)"

text \<open>\<open>toLowerCase\<close> on code units below 256: A-Z and the Latin-1 capitals move up by 32.\<close>

definition lowerChar :: "char \<Rightarrow> char" where
  "lowerChar c =
     (let n = (of_char c :: nat) in
      if (65 \<le> n \<and> n \<le> 90) \<or> (192 \<le> n \<and> n \<le> 222 \<and> n \<noteq> 215)
      then char_of (n + 32) else c)"

definition toLowerCase :: "string \<Rightarrow> string" where
  "toLowerCase s = map lowerChar s"

text \<open>
  \<open>s.split(sep)\<close> for a one-character separator. The result is never empty:
  \<open>"".split(":")\<close> is \<open>[""]\<close>.
\<close>

fun splitBy :: "char \<Rightarrow> string \<Rightarrow> string list" where
  "splitBy sep [] = [[]]"
| "splitBy sep (c # cs) =
     (if c = sep then [] # splitBy sep cs
      else (case splitBy sep cs of
              [] \<Rightarrow> [[c]]
            | p # ps \<Rightarrow> (c # p) # ps))"

text \<open>\<open>xs.join(sep)\<close>.\<close>

fun join :: "string \<Rightarrow> string list \<Rightarrow> string" where
  "join sep [] = []"
| "join sep [x] = x"
| "join sep (x # y # ys) = x @ sep @ join sep (y # ys)"

text \<open>Decimal rendering of a number in a template literal (integers only).\<close>

fun digits :: "nat \<Rightarrow> string" where
  "digits n =
     (if n < 10 then [''0123456789'' ! n]
      else digits (n div 10) @ [''0123456789'' ! (n mod 10)])"

declare digits.simps [simp del]

definition intToString :: "int \<Rightarrow> string" where
  "intToString i = (if i < 0 then CHR ''-'' # digits (nat (- i)) else digits (nat i))"

text \<open>
  A JavaScript number as the server meets it: an integer, or \<open>NaN\<close> (what
  \<open>parseInt\<close> returns on a string with no leading digits). JavaScript rounds
  integers beyond \<open>2^53\<close>; the model keeps them exact.
\<close>

datatype number = NaN | Num int

fun numberToString :: "number \<Rightarrow> string" where
  "numberToString NaN = ''NaN''"
| "numberToString (Num i) = intToString i"

text \<open>\<open>x > 0\<close>: every comparison with \<open>NaN\<close> is false.\<close>

fun positive :: "number \<Rightarrow> bool" where
  "positive NaN = False"
| "positive (Num i) = (0 < i)"

text \<open>
  \<open>parseInt(s, 10)\<close>: leading white space is skipped, one sign is read, then the
  longest run of decimal digits; no digit gives \<open>NaN\<close>.
\<close>

definition isDigit :: "char \<Rightarrow> bool" where
  "isDigit c \<longleftrightarrow> c \<in> set ''0123456789''"

definition digitValue :: "char \<Rightarrow> nat" where
  "digitValue c = (of_char c :: nat) - 48"

definition digitsValue :: "string \<Rightarrow> nat" where
  "digitsValue ds = foldl (\<lambda>acc d. 10 * acc + digitValue d) 0 ds"

definition parseInt :: "string \<Rightarrow> number" where
  "parseInt s =
     (let t = trimStart s;
          (neg, u) = (case t of
                        c # cs \<Rightarrow> if c = CHR ''-'' then (True, cs)
                                  else if c = CHR ''+'' then (False, cs)
                                  else (False, t)
                      | [] \<Rightarrow> (False, t));
          ds = takeWhile isDigit u
      in if ds = [] then NaN
         else Num (if neg then - int (digitsValue ds) else int (digitsValue ds)))"

section \<open>JSON values and \<open>JSON.stringify\<close>\<close>

datatype json =
    JString string
  | JNumber int
  | JBool bool
  | JObject "(string \<times> json) list"

type_synonym object = "(string \<times> json) list"

text \<open>
  The object spread \<open>{...a, ...b}\<close>: the properties of \<open>b\<close> are assigned in order;
  an existing key keeps its place and takes the new value, a new key is appended.
\<close>

definition spread :: "object \<Rightarrow> object \<Rightarrow> object" where
  "spread a b = foldl (\<lambda>acc (k, v). AList.update k v acc) a b"

definition hexDigit :: "nat \<Rightarrow> char" where
  "hexDigit n = ''0123456789abcdef'' ! n"

definition escapeChar :: "char \<Rightarrow> string" where
  "escapeChar c =
     (if c = CHR 0x22 then [CHR 0x5C, CHR 0x22]
      else if c = CHR 0x5C then [CHR 0x5C, CHR 0x5C]
      else if c = CHR 0x08 then [CHR 0x5C, CHR ''b'']
      else if c = CHR 0x0C then [CHR 0x5C, CHR ''f'']
      else if c = CHR 0x0A then [CHR 0x5C, CHR ''n'']
      else if c = CHR 0x0D then [CHR 0x5C, CHR ''r'']
      else if c = CHR 0x09 then [CHR 0x5C, CHR ''t'']
      else if (of_char c :: nat) < 32
        then [CHR 0x5C, CHR ''u'', CHR ''0'', CHR ''0'',
              hexDigit ((of_char c :: nat) div 16), hexDigit ((of_char c :: nat) mod 16)]
      else [c])"

definition quote :: "string \<Rightarrow> string" where
  "quote s = [CHR 0x22] @ concat (map escapeChar s) @ [CHR 0x22]"

fun stringify :: "json \<Rightarrow> string" where
  "stringify (JString s) = quote s"
| "stringify (JNumber i) = intToString i"
| "stringify (JBool b) = (if b then ''true'' else ''false'')"
| "stringify (JObject kvs) =
     ''{'' @ join '','' (map (\<lambda>kv. quote (fst kv) @ '':'' @ stringify (snd kv)) kvs) @ ''}''"

section \<open>The host: \<open>systemService.ts\<close>\<close>

text \<open>
  What the service reads from the machine it runs on. \<open>exec\<close> gives the outcome of a
  shell command: \<open>None\<close> when it succeeded, the error's message otherwise. The optional
  native package \<open>node-shutdown-windows\<close> is \<open>None\<close> when the function is missing,
  \<open>Some True\<close> when the call returns and \<open>Some False\<close> when it throws. \<open>isoFormat\<close>
  is the text \<open>Date.prototype.toISOString\<close> produces for a time value, \<open>gbFixed2\<close> the
  text of \<open>(bytes / 2^30).toFixed(2)\<close>, and \<open>localIP\<close> the address
  \<open>getLocalIPAddress\<close> picks.
\<close>

record host =
  exec :: "string \<Rightarrow> string option"
  nativeShutdown :: "bool option"
  nativeLogoff :: "bool option"
  now :: int
  isoFormat :: "int \<Rightarrow> string"
  hostname :: string
  platform :: string
  release :: string
  uptime :: nat
  totalmem :: nat
  freemem :: nat
  gbFixed2 :: "nat \<Rightarrow> string"
  cpus :: nat
  localIP :: string

text \<open>A settled promise of \<open>void\<close>: rejected with an error message, or resolved.\<close>

type_synonym outcome = "string + unit"

definition execOutcome :: "host \<Rightarrow> string \<Rightarrow> outcome" where
  "execOutcome h command = (case exec h command of Some err \<Rightarrow> Inl err | None \<Rightarrow> Inr ())"

definition shutdownSystem :: "host \<Rightarrow> number \<Rightarrow> bool \<Rightarrow> outcome" where
  "shutdownSystem h delay force =
     (if nativeShutdown h = Some True then Inr ()
      else execOutcome h
             (''shutdown /s /t '' @ numberToString delay @ (if force then '' /f'' else [])))"

definition restartSystem :: "host \<Rightarrow> number \<Rightarrow> bool \<Rightarrow> outcome" where
  "restartSystem h delay force =
     execOutcome h
       (''shutdown /r /t '' @ numberToString delay @ (if force then '' /f'' else []))"

definition sleepSystem :: "host \<Rightarrow> outcome" where
  "sleepSystem h = execOutcome h ''rundll32.exe powrprof.dll,SetSuspendState 0,1,0''"

definition hibernateSystem :: "host \<Rightarrow> outcome" where
  "hibernateSystem h = execOutcome h ''rundll32.exe powrprof.dll,SetSuspendState 1,1,0''"

text \<open>\<open>cancelShutdown\<close> resolves in both branches of the callback.\<close>

definition cancelShutdown :: "host \<Rightarrow> outcome" where
  "cancelShutdown h = (case exec h ''shutdown /a'' of Some err \<Rightarrow> Inr () | None \<Rightarrow> Inr ())"

definition logoutSystem :: "host \<Rightarrow> outcome" where
  "logoutSystem h =
     (if nativeLogoff h = Some True then Inr ()
      else execOutcome h ''shutdown /l'')"

definition formatUptime :: "nat \<Rightarrow> string" where
  "formatUptime seconds =
     (let days = seconds div 86400;
          hours = (seconds mod 86400) div 3600;
          minutes = (seconds mod 3600) div 60;
          parts = (if 0 < days then [digits days @ ''d''] else [])
                @ (if 0 < hours then [digits hours @ ''h''] else [])
                @ (if 0 < minutes then [digits minutes @ ''m''] else []);
          joined = join '' '' parts
      in if joined = [] then ''< 1m'' else joined)"

definition formatBytes :: "host \<Rightarrow> nat \<Rightarrow> string" where
  "formatBytes h bytes = gbFixed2 h bytes @ '' GB''"

definition getSystemInfo :: "host \<Rightarrow> object" where
  "getSystemInfo h =
     [(''hostname'', JString (hostname h)),
      (''platform'', JString (platform h)),
      (''release'', JString (release h)),
      (''uptime'', JNumber (int (uptime h))),
      (''uptimeFormatted'', JString (formatUptime (uptime h))),
      (''totalMemory'', JString (formatBytes h (totalmem h))),
      (''freeMemory'', JString (formatBytes h (freemem h))),
      (''cpus'', JNumber (int (cpus h))),
      (''localIP'', JString (localIP h)),
      (''timestamp'', JString (isoFormat h (now h)))]"

text \<open>
  \<open>new Date(t).toISOString()\<close> throws a \<open>RangeError\<close> when the time value lies outside
  the range of \<open>Date\<close> (8.64e15 ms on either side of the epoch).
\<close>

definition toISOString :: "host \<Rightarrow> int \<Rightarrow> string option" where
  "toISOString h t =
     (if - 8640000000000000 \<le> t \<and> t \<le> 8640000000000000 then Some (isoFormat h t) else None)"

section \<open>The HTTP service\<close>

subsection \<open>Requests and responses\<close>

text \<open>
  Of a request the service reads the method and path, the \<open>key\<close>, \<open>delay\<close> and \<open>force\<close>
  properties of the JSON body and the \<open>x-shared-secret\<close> header; each may be absent.
  The properties have the types of \<open>ShutdownRequestBody\<close>, as the client sends them:
  the key a string, the delay a number (an integer here), \<open>force\<close> a boolean.
\<close>

record request =
  reqMethod :: string
  reqPath :: string
  bodyKey :: "string option"
  bodyDelay :: "int option"
  bodyForce :: "bool option"
  headerSecret :: "string option"

record response =
  status :: nat
  body :: object

definition respond :: "nat \<Rightarrow> object \<Rightarrow> response" where
  "respond code obj = \<lparr>status = code, body = obj\<rparr>"

subsection \<open>\<open>middleware/auth.ts\<close>\<close>

text \<open>\<open>process.env.SHARED_SECRET_KEY || "meetgoat1234"\<close>.\<close>

definition SECRET_KEY :: "string option \<Rightarrow> string" where
  "SECRET_KEY env =
     (case env of None \<Rightarrow> ''meetgoat1234''
      | Some s \<Rightarrow> if s = [] then ''meetgoat1234'' else s)"

text \<open>\<open>a || b\<close> on optional strings: \<open>undefined\<close> and the empty string are falsy.\<close>

fun truthy :: "string option \<Rightarrow> bool" where
  "truthy None = False"
| "truthy (Some s) = (s \<noteq> [])"

definition orElse :: "string option \<Rightarrow> string option \<Rightarrow> string option" where
  "orElse a b = (if truthy a then a else b)"

datatype auth_result = Next | Rejected response

definition authenticate :: "string \<Rightarrow> request \<Rightarrow> auth_result" where
  "authenticate secret req =
     (let keyFromBody = bodyKey req;
          keyFromHeader = headerSecret req;
          providedKey = orElse keyFromBody keyFromHeader
      in case providedKey of
           None \<Rightarrow>
             Rejected (respond 401
               [(''success'', JBool False),
                (''error'', JString ''Authentication required. Please provide a secret key.''),
                (''code'', JString ''AUTH_REQUIRED'')])
         | Some k \<Rightarrow>
             if k = [] then
               Rejected (respond 401
                 [(''success'', JBool False),
                  (''error'', JString ''Authentication required. Please provide a secret key.''),
                  (''code'', JString ''AUTH_REQUIRED'')])
             else
               let trimmedProvidedKey = trim k;
                   trimmedSecretKey = trim secret
               in if trimmedProvidedKey = trimmedSecretKey then Next
                  else Rejected (respond 403
                         [(''success'', JBool False),
                          (''error'', JString ''Invalid secret key. Access denied.''),
                          (''code'', JString ''INVALID_KEY'')]))"

subsection \<open>\<open>controllers/shutdownController.ts\<close>\<close>

definition failure :: "string \<Rightarrow> string \<Rightarrow> response" where
  "failure msg code =
     respond 500 [(''success'', JBool False), (''error'', JString msg), (''code'', JString code)]"

definition handleShutdown :: "host \<Rightarrow> request \<Rightarrow> response" where
  "handleShutdown h req =
     (let delay = (case bodyDelay req of None \<Rightarrow> 0 | Some d \<Rightarrow> d);
          force = (case bodyForce req of None \<Rightarrow> False | Some f \<Rightarrow> f)
      in case shutdownSystem h (Num delay) force of
           Inl err \<Rightarrow> failure ''Failed to initiate shutdown'' ''SHUTDOWN_FAILED''
         | Inr _ \<Rightarrow>
            (case toISOString h (now h + delay * 1000) of
               None \<Rightarrow> failure ''Failed to initiate shutdown'' ''SHUTDOWN_FAILED''
             | Some scheduledTime \<Rightarrow>
                 respond 200
                   [(''success'', JBool True),
                    (''message'', JString
                       (if 0 < delay
                        then ''Shutdown scheduled in '' @ intToString delay @ '' seconds''
                        else ''Shutdown initiated immediately'')),
                    (''scheduledTime'', JString scheduledTime)]))"

definition handleRestart :: "host \<Rightarrow> request \<Rightarrow> response" where
  "handleRestart h req =
     (let delay = (case bodyDelay req of None \<Rightarrow> 0 | Some d \<Rightarrow> d);
          force = (case bodyForce req of None \<Rightarrow> False | Some f \<Rightarrow> f)
      in case restartSystem h (Num delay) force of
           Inl err \<Rightarrow> failure ''Failed to initiate restart'' ''RESTART_FAILED''
         | Inr _ \<Rightarrow>
            (case toISOString h (now h + delay * 1000) of
               None \<Rightarrow> failure ''Failed to initiate restart'' ''RESTART_FAILED''
             | Some scheduledTime \<Rightarrow>
                 respond 200
                   [(''success'', JBool True),
                    (''message'', JString
                       (if 0 < delay
                        then ''Restart scheduled in '' @ intToString delay @ '' seconds''
                        else ''Restart initiated immediately'')),
                    (''scheduledTime'', JString scheduledTime)]))"

definition handleSleep :: "host \<Rightarrow> request \<Rightarrow> response" where
  "handleSleep h req =
     (case sleepSystem h of
        Inl err \<Rightarrow> failure ''Failed to initiate sleep mode'' ''SLEEP_FAILED''
      | Inr _ \<Rightarrow> respond 200
          [(''success'', JBool True), (''message'', JString ''Sleep mode initiated'')])"

definition handleHibernate :: "host \<Rightarrow> request \<Rightarrow> response" where
  "handleHibernate h req =
     (case hibernateSystem h of
        Inl err \<Rightarrow> failure ''Failed to initiate hibernate mode'' ''HIBERNATE_FAILED''
      | Inr _ \<Rightarrow> respond 200
          [(''success'', JBool True), (''message'', JString ''Hibernate mode initiated'')])"

definition handleCancel :: "host \<Rightarrow> request \<Rightarrow> response" where
  "handleCancel h req =
     (case cancelShutdown h of
        Inl err \<Rightarrow> failure ''Failed to cancel or no scheduled shutdown found'' ''CANCEL_FAILED''
      | Inr _ \<Rightarrow> respond 200
          [(''success'', JBool True),
           (''message'', JString ''Scheduled shutdown/restart cancelled'')])"

definition handleLogout :: "host \<Rightarrow> request \<Rightarrow> response" where
  "handleLogout h req =
     (case logoutSystem h of
        Inl err \<Rightarrow> failure ''Failed to logout'' ''LOGOUT_FAILED''
      | Inr _ \<Rightarrow> respond 200
          [(''success'', JBool True), (''message'', JString ''Logging out...'')])"

definition handleStatus :: "host \<Rightarrow> request \<Rightarrow> response" where
  "handleStatus h req = respond 200 (spread [(''success'', JBool True)] (getSystemInfo h))"

subsection \<open>\<open>routes/index.ts\<close> and \<open>server.ts\<close>\<close>

text \<open>Every route of the router runs \<open>authenticate\<close> first and the handler only after \<open>next()\<close>.\<close>

definition guarded ::
  "string \<Rightarrow> (host \<Rightarrow> request \<Rightarrow> response) \<Rightarrow> host \<Rightarrow> request \<Rightarrow> response" where
  "guarded secret handler h req =
     (case authenticate secret req of Rejected r \<Rightarrow> r | Next \<Rightarrow> handler h req)"

text \<open>
  The application: the open \<open>/health\<close> route, the router mounted at \<open>/api\<close>, and the 404
  handler. \<open>bt\<close> is the \<open>bluetooth\<close> object of the health reply. Paths are matched
  exactly.
\<close>

definition app :: "string \<Rightarrow> object \<Rightarrow> host \<Rightarrow> request \<Rightarrow> response" where
  "app secret bt h req =
     (let m = reqMethod req; p = reqPath req in
      if m = ''GET'' \<and> p = ''/health'' then
        respond 200
          [(''status'', JString ''ok''),
           (''message'', JString ''Remote Shutdown Service is running''),
           (''hostname'', JString (hostname h)),
           (''timestamp'', JString (isoFormat h (now h))),
           (''bluetooth'', JObject bt)]
      else if m = ''POST'' \<and> p = ''/api/shutdown'' then guarded secret handleShutdown h req
      else if m = ''POST'' \<and> p = ''/api/restart'' then guarded secret handleRestart h req
      else if m = ''POST'' \<and> p = ''/api/sleep'' then guarded secret handleSleep h req
      else if m = ''POST'' \<and> p = ''/api/hibernate'' then guarded secret handleHibernate h req
      else if m = ''POST'' \<and> p = ''/api/logout'' then guarded secret handleLogout h req
      else if m = ''POST'' \<and> p = ''/api/cancel'' then guarded secret handleCancel h req
      else if m = ''GET'' \<and> p = ''/api/status'' then guarded secret handleStatus h req
      else respond 404 [(''error'', JString ''Endpoint not found'')])"

section \<open>The serial service: \<open>bluetoothServer.ts\<close>\<close>

record BluetoothCommand =
  cmdAction :: string
  cmdKey :: string
  cmdOptions :: "(string \<times> string) list"

text \<open>
  One turn of the loop over \<open>optionPairs\<close>: \<open>const [optKey, optValue] = pair.split("=")\<close>
  takes the first two parts, \<open>optValue\<close> being \<open>undefined\<close> when there is one part only.
\<close>

definition parseOption :: "(string \<times> string) list \<Rightarrow> string \<Rightarrow> (string \<times> string) list" where
  "parseOption options pair =
     (case splitBy (CHR ''='') pair of
        optKey # optValue # rest \<Rightarrow>
          if optKey \<noteq> [] then AList.update (trim optKey) (trim optValue) options else options
      | _ \<Rightarrow> options)"

definition parseCommand :: "string \<Rightarrow> BluetoothCommand option" where
  "parseCommand data =
     (let trimmed = trim data;
          parts = splitBy (CHR '':'') trimmed
      in if length parts < 2 then None
         else
           let action = toLowerCase (parts ! 0);
               key = parts ! 1;
               optionsStr = (if 2 < length parts then parts ! 2 else []);
               options = (if optionsStr \<noteq> []
                          then foldl parseOption [] (splitBy (CHR '','') optionsStr)
                          else [])
           in Some \<lparr>cmdAction = action, cmdKey = key, cmdOptions = options\<rparr>)"

text \<open>The object literal \<open>{success, message, ...extra}\<close> that \<open>createResponse\<close> serialises.\<close>

definition createResponseObject :: "bool \<Rightarrow> string \<Rightarrow> object \<Rightarrow> object" where
  "createResponseObject success message extra =
     spread [(''success'', JBool success), (''message'', JString message)] extra"

definition createResponse :: "bool \<Rightarrow> string \<Rightarrow> object \<Rightarrow> string" where
  "createResponse success message extra =
     stringify (JObject (createResponseObject success message extra)) @ [CHR 0x0A]"

text \<open>
  \<open>processCommand\<close> returns \<open>createResponse(...)\<close> on every path. \<open>processCommandVia\<close>
  is its body with the response builder as a parameter, so that the same body gives the
  line written to the connection (\<open>processCommand\<close>) and the object inside that line
  (\<open>processCommandObject\<close>). A rejected promise is caught and reported as
  \<open>Action failed\<close>.
\<close>

definition attempt ::
  "(bool \<Rightarrow> string \<Rightarrow> object \<Rightarrow> 'r) \<Rightarrow> outcome \<Rightarrow> 'r \<Rightarrow> 'r" where
  "attempt reply result ok =
     (case result of
        Inl errorMessage \<Rightarrow> reply False (''Action failed: '' @ errorMessage) []
      | Inr _ \<Rightarrow> ok)"

definition processCommandVia ::
  "(bool \<Rightarrow> string \<Rightarrow> object \<Rightarrow> 'r) \<Rightarrow> host \<Rightarrow> string \<Rightarrow> string \<Rightarrow> 'r" where
  "processCommandVia reply h commandStr secretKey =
     (case parseCommand commandStr of
        None \<Rightarrow> reply False ''Invalid command format. Use: action:key:options'' []
      | Some command \<Rightarrow>
          if cmdKey command \<noteq> secretKey then
            reply False ''Authentication failed: Invalid key'' []
          else
            let delay = parseInt (the (orElse (map_of (cmdOptions command) ''delay'') (Some ''0'')));
                force = (map_of (cmdOptions command) ''force'' = Some ''true'');
                action = cmdAction command
            in if action = ''shutdown'' then
                 attempt reply (shutdownSystem h delay force)
                   (reply True
                      (if positive delay
                       then ''PC will shut down in '' @ numberToString delay @ '' seconds''
                       else ''PC is shutting down...'') [])
               else if action = ''restart'' then
                 attempt reply (restartSystem h delay force)
                   (reply True
                      (if positive delay
                       then ''PC will restart in '' @ numberToString delay @ '' seconds''
                       else ''PC is restarting...'') [])
               else if action = ''sleep'' then
                 attempt reply (sleepSystem h) (reply True ''PC is going to sleep...'' [])
               else if action = ''hibernate'' then
                 attempt reply (hibernateSystem h) (reply True ''PC is hibernating...'' [])
               else if action = ''logout'' then
                 attempt reply (logoutSystem h) (reply True ''Logging out...'' [])
               else if action = ''cancel'' then
                 attempt reply (cancelShutdown h) (reply True ''Shutdown cancelled'' [])
               else if action = ''status'' then
                 reply True ''Status retrieved'' (getSystemInfo h)
               else if action = ''ping'' then
                 reply True ''pong'' [(''hostname'', JString (hostname h))]
               else reply False (''Unknown action: '' @ action) [])"

definition processCommand :: "host \<Rightarrow> string \<Rightarrow> string \<Rightarrow> string" where
  "processCommand = processCommandVia createResponse"

definition processCommandObject :: "host \<Rightarrow> string \<Rightarrow> string \<Rightarrow> object" where
  "processCommandObject = processCommandVia createResponseObject"

section \<open>The client\<close>

datatype SystemAction = Shutdown | Restart | Sleep | Hibernate | Logout | Cancel

datatype ConnectionMode = Wifi | Bluetooth

fun actionName :: "SystemAction \<Rightarrow> string" where
  "actionName Shutdown = ''shutdown''"
| "actionName Restart = ''restart''"
| "actionName Sleep = ''sleep''"
| "actionName Hibernate = ''hibernate''"
| "actionName Logout = ''logout''"
| "actionName Cancel = ''cancel''"

subsection \<open>\<open>services/api.ts\<close>\<close>

text \<open>
  The network between client and service: a request to an address and port is answered,
  or fails with one of the error codes \<open>handleApiError\<close> tells apart.
\<close>

datatype net_failure = ECONNREFUSED | ETIMEDOUT | ECONNABORTED | OtherFailure

type_synonym network = "string \<Rightarrow> nat \<Rightarrow> request \<Rightarrow> net_failure + response"

text \<open>\<open>data?.error || fallback\<close>.\<close>

definition errorOr :: "object \<Rightarrow> string \<Rightarrow> string" where
  "errorOr data fallback =
     (case map_of data ''error'' of
        Some (JString e) \<Rightarrow> if e \<noteq> [] then e else fallback
      | _ \<Rightarrow> fallback)"

definition handleApiError :: "net_failure + response \<Rightarrow> string" where
  "handleApiError error =
     (case error of
        Inl code \<Rightarrow>
          if code = ECONNREFUSED then
            ''Cannot connect to PC. Make sure the service is running and you're on the same network.''
          else if code = ETIMEDOUT \<or> code = ECONNABORTED then
            ''Connection timed out. Check if the IP address is correct and the PC is reachable.''
          else ''Network error. Please check your connection and try again.''
      | Inr r \<Rightarrow>
          if status r = 401 then ''Authentication required. Please check your secret key.''
          else if status r = 403 then ''Invalid secret key. Access denied.''
          else if status r = 404 then
            ''Endpoint not found. Make sure the service is running the correct version.''
          else if status r = 500 then errorOr (body r) ''Server error occurred.''
          else errorOr (body r) (''Request failed with status '' @ digits (status r)))"

text \<open>
  One call of the axios client: the promise resolves with the response data when the
  status is 2xx and rejects with the message of \<open>handleApiError\<close> otherwise.
\<close>

definition call :: "network \<Rightarrow> string \<Rightarrow> nat \<Rightarrow> request \<Rightarrow> string + object" where
  "call net ipAddress port req =
     (case net ipAddress port req of
        Inl code \<Rightarrow> Inl (handleApiError (Inl code))
      | Inr r \<Rightarrow> if 200 \<le> status r \<and> status r < 300 then Inr (body r)
                 else Inl (handleApiError (Inr r)))"








definition getSystemStatus :: "network \<Rightarrow> string \<Rightarrow> string \<Rightarrow> nat \<Rightarrow> string + object" where
  "getSystemStatus net ipAddress secretKey port =
     call net ipAddress port
       \<lparr>reqMethod = ''GET'', reqPath = ''/api/status'', bodyKey = None,
        bodyDelay = None, bodyForce = None, headerSecret = Some secretKey\<rparr>"


subsection \<open>\<open>services/bluetoothService.ts\<close>: building the command\<close>

text \<open>
  The \<open>options\<close> object as its entries in insertion order; a property whose value is
  \<open>undefined\<close> is \<open>None\<close>. Template literals render a number in decimal and a boolean
  as \<open>true\<close> or \<open>false\<close>.
\<close>

datatype option_value = OptNumber int | OptBool bool

fun renderValue :: "option_value \<Rightarrow> string" where
  "renderValue (OptNumber n) = intToString n"
| "renderValue (OptBool b) = (if b then ''true'' else ''false'')"

definition optionsString :: "(string \<times> option_value option) list \<Rightarrow> string" where
  "optionsString options =
     join '',''
       (map (\<lambda>(k, v). k @ ''='' @ renderValue (the v))
          (filter (\<lambda>(k, v). v \<noteq> None) options))"

definition commandString ::
  "SystemAction \<Rightarrow> string \<Rightarrow> (string \<times> option_value option) list \<Rightarrow> string" where
  "commandString action secretKey options =
     (let optionsStr = optionsString options
      in if optionsStr \<noteq> []
         then actionName action @ '':'' @ secretKey @ '':'' @ optionsStr @ [CHR 0x0A]
         else actionName action @ '':'' @ secretKey @ [CHR 0x0A])"

text \<open>
  \<open>sendBluetoothCommand\<close> up to the write: it throws when there is no connection or the
  connection is no longer open, and writes the command otherwise.
\<close>

datatype connection = NoConnection | Stale | Open

definition sendBluetoothCommand ::
  "connection \<Rightarrow> SystemAction \<Rightarrow> string \<Rightarrow> (string \<times> option_value option) list
     \<Rightarrow> string + string" where
  "sendBluetoothCommand currentConnection action secretKey options =
     (if currentConnection = NoConnection then
        Inl ''Not connected to any device. Please connect first.''
      else if currentConnection = Stale then
        Inl ''Device disconnected. Please reconnect.''
      else Inr (commandString action secretKey options))"

subsection \<open>The dispatcher: \<open>components/ShutdownButton.tsx\<close>\<close>

text \<open>
  The properties the component's logic reads. \<open>onValidate\<close> is \<open>None\<close> when no
  validator is given, and otherwise the value the validator returns.
\<close>

record props =
  propAction :: SystemAction
  propIpAddress :: string
  propSecretKey :: string
  propPort :: nat
  propConnectionMode :: ConnectionMode
  propDelay :: int
  propForce :: bool
  propOnValidate :: "bool option"

text \<open>A call handed to the active transport, with the options it carries.\<close>

datatype transport_call =
    SendSystemAction SystemAction string string int bool nat
  | SendBluetoothSystemAction SystemAction string int bool


text \<open>
  The component's state: the three \<open>useState\<close> cells and whether the interval held in
  \<open>countdownRef\<close> is running (\<open>timerRef\<close> is never assigned). \<open>calls\<close> and \<open>alerts\<close>
  record what the component has handed to a transport and shown with \<open>Alert.alert\<close>.
\<close>

record button =
  isProcessing :: bool
  isCountingDown :: bool
  countdown :: int
  countdownRef :: bool
  calls :: "transport_call list"
  alerts :: "string list"

definition cancelCountdown :: "button \<Rightarrow> button" where
  "cancelCountdown s = s\<lparr>countdownRef := False, isCountingDown := False, countdown := 0\<rparr>"

text \<open>\<open>executeAction\<close> up to its \<open>await\<close>: the call is made with \<open>delay: 0\<close>.\<close>

definition executeAction :: "props \<Rightarrow> button \<Rightarrow> button" where
  "executeAction p s =
     (let s1 = s\<lparr>countdownRef := False, isCountingDown := False, countdown := 0,
                 isProcessing := True\<rparr>;
          request =
            (if propConnectionMode p = Bluetooth
             then SendBluetoothSystemAction (propAction p) (propSecretKey p) 0 (propForce p)
             else SendSystemAction (propAction p) (propIpAddress p) (propSecretKey p) 0
                    (propForce p) (propPort p))
      in s1\<lparr>calls := calls s1 @ [request]\<rparr>)"

text \<open>
  The rest of \<open>executeAction\<close>, run when the transport's promise settles: an error is
  shown in an alert, a response is dropped, and \<open>finally\<close> ends the processing.
\<close>

definition settled :: "string + object \<Rightarrow> button \<Rightarrow> button" where
  "settled result s =
     (let s1 = (case result of
                  Inl errorMessage \<Rightarrow> s\<lparr>alerts := alerts s @ [errorMessage]\<rparr>
                | Inr response \<Rightarrow> s)
      in s1\<lparr>isProcessing := False\<rparr>)"

definition startCountdown :: "props \<Rightarrow> button \<Rightarrow> button" where
  "startCountdown p s =
     (if propDelay p = 0 then executeAction p s
      else s\<lparr>isCountingDown := True, countdown := propDelay p, countdownRef := True\<rparr>)"

definition handlePress :: "props \<Rightarrow> button \<Rightarrow> button" where
  "handlePress p s =
     (if isCountingDown s then cancelCountdown s
      else if propOnValidate p = Some False then s
      else if propAction p = Cancel then executeAction p s
      else startCountdown p s)"

text \<open>The interval's callback, which runs only while the interval has not been cleared.\<close>

definition tick :: "props \<Rightarrow> button \<Rightarrow> button" where
  "tick p s =
     (if \<not> countdownRef s then s
      else if countdown s \<le> 1 then (executeAction p (s\<lparr>countdownRef := False\<rparr>))\<lparr>countdown := 0\<rparr>
      else s\<lparr>countdown := countdown s - 1\<rparr>)"

text \<open>
  What can happen to a mounted button: a press (the button is disabled while
  \<open>isProcessing\<close>), a second elapsing, the transport's promise settling.
\<close>

datatype event = Press | Tick | Settle "string + object"

fun step :: "props \<Rightarrow> button \<Rightarrow> event \<Rightarrow> button" where
  "step p s Press = (if isProcessing s then s else handlePress p s)"
| "step p s Tick = tick p s"
| "step p s (Settle result) = (if isProcessing s then settled result s else s)"

definition run :: "props \<Rightarrow> button \<Rightarrow> event list \<Rightarrow> button" where
  "run p s events = foldl (step p) s events"

datatype phase = Idle | CountingDown | Executing

definition phaseOf :: "button \<Rightarrow> phase" where
  "phaseOf s = (if isProcessing s then Executing else if isCountingDown s then CountingDown else Idle)"

definition initial :: button where
  "initial = \<lparr>isProcessing = False, isCountingDown = False, countdown = 0,
              countdownRef = False, calls = [], alerts = []\<rparr>"

section \<open>The discovery scanner: \<open>services/networkScanner.ts\<close>\<close>

record DiscoveredDevice =
  ip :: string
  port :: nat
  deviceName :: "string option"
  responseTime :: int
  hasService :: bool

text \<open>
  What a probe of \<open>http://ip:port/health\<close> meets: no usable reply (refused, timed out,
  error status), or a reply with the \<open>status\<close> and \<open>hostname\<close> of its body and the
  milliseconds \<open>Date.now() - startTime\<close> it took.
\<close>

datatype probe = NoReply | Reply "string option" "string option" int

type_synonym lan = "string \<Rightarrow> nat \<Rightarrow> nat \<Rightarrow> probe"

definition checkServiceAtIP :: "lan \<Rightarrow> string \<Rightarrow> nat \<Rightarrow> nat \<Rightarrow> DiscoveredDevice option" where
  "checkServiceAtIP lan address prt timeout =
     (case lan address prt timeout of
        NoReply \<Rightarrow> None
      | Reply st name elapsed \<Rightarrow>
          if st = Some ''ok''
          then Some \<lparr>ip = address, port = prt, deviceName = name,
                      responseTime = elapsed, hasService = True\<rparr>
          else None)"

definition getHotspotPrefixes :: "string list" where
  "getHotspotPrefixes = [''192.168.43'', ''192.168.137'', ''192.168.49'']"

text \<open>
  A scan in progress. The trace records each probe being started and each probe's
  promise settling, and each \<open>onProgress\<close> call with the count scanned and the total.
\<close>

datatype scan_event = Launched string | Settled string | Progress nat nat

record scan =
  foundDevices :: "DiscoveredDevice list"
  scannedCount :: nat
  trace :: "scan_event list"

text \<open>
  One batch: the inner loop starts a probe for each \<open>i\<close> from \<open>start\<close> below
  \<open>Math.min(start + batchSize, limit)\<close>; \<open>await Promise.all(batch)\<close> resumes once all
  of them have settled, in the order \<open>race\<close> gives, and yields the results in the order
  of the batch; the found devices are appended and progress is reported.
\<close>

definition batchAddresses :: "string \<Rightarrow> nat \<Rightarrow> nat \<Rightarrow> nat \<Rightarrow> string list" where
  "batchAddresses prefix start batchSize limit =
     map (\<lambda>i. prefix @ ''.'' @ digits i) [start ..< min (start + batchSize) limit]"

definition runBatch ::
  "lan \<Rightarrow> (string list \<Rightarrow> string list) \<Rightarrow> nat \<Rightarrow> nat \<Rightarrow> nat \<Rightarrow> string list \<Rightarrow> scan \<Rightarrow> scan" where
  "runBatch lan race prt timeout totalIPs batch s =
     (let results = map (\<lambda>address. checkServiceAtIP lan address prt timeout) batch;
          found = foldl (\<lambda>acc result. case result of Some device \<Rightarrow> acc @ [device] | None \<Rightarrow> acc)
                    (foundDevices s) results;
          scanned = scannedCount s + length batch
      in \<lparr>foundDevices = found, scannedCount = scanned,
          trace = trace s @ map Launched batch @ map Settled (race batch)
                  @ [Progress scanned totalIPs]\<rparr>)"

text \<open>
  The loop \<open>for (start = 1; start <= final; start += batchSize)\<close> over the batches of
  one prefix. \<open>batchSize\<close> is a positive constant in every scanner; the test
  \<open>0 < batchSize\<close> is there for the definition to be total.
\<close>

function scanRange ::
  "lan \<Rightarrow> (string list \<Rightarrow> string list) \<Rightarrow> nat \<Rightarrow> nat \<Rightarrow> nat \<Rightarrow> string \<Rightarrow> nat \<Rightarrow> nat \<Rightarrow> nat
     \<Rightarrow> nat \<Rightarrow> scan \<Rightarrow> scan" where
  "scanRange lan race prt timeout totalIPs prefix batchSize final limit start s =
     (if start \<le> final \<and> 0 < batchSize
      then scanRange lan race prt timeout totalIPs prefix batchSize final limit (start + batchSize)
             (runBatch lan race prt timeout totalIPs
                (batchAddresses prefix start batchSize limit) s)
      else s)"
  by pat_completeness auto
termination
  by (relation "measure (\<lambda>(lan, race, prt, timeout, totalIPs, prefix, batchSize, final, limit, start, s).
                  Suc final - start)") auto

declare scanRange.simps [simp del]

text \<open>The loop \<open>for (const prefix of prefixes)\<close>.\<close>

definition scanPrefixes ::
  "lan \<Rightarrow> (string list \<Rightarrow> string list) \<Rightarrow> nat \<Rightarrow> nat \<Rightarrow> nat \<Rightarrow> nat \<Rightarrow> nat \<Rightarrow> nat
     \<Rightarrow> string list \<Rightarrow> scan \<Rightarrow> scan" where
  "scanPrefixes lan race prt timeout totalIPs batchSize final limit prefixes s =
     foldl (\<lambda>acc prefix. scanRange lan race prt timeout totalIPs prefix batchSize final limit 1 acc)
       s prefixes"

definition emptyScan :: scan where
  "emptyScan = \<lparr>foundDevices = [], scannedCount = 0, trace = []\<rparr>"

text \<open>\<open>xs.sort((a, b) => a.responseTime - b.responseTime)\<close>: a stable sort on the latency.\<close>

definition sortByResponseTime :: "DiscoveredDevice list \<Rightarrow> DiscoveredDevice list" where
  "sortByResponseTime xs = sort_key responseTime xs"

text \<open>
  Each scanner gives the list it returns and the trace of the scan. The port and the
  timeout are parameters (with defaults in the source).
\<close>

definition scanAllDevices ::
  "lan \<Rightarrow> (string list \<Rightarrow> string list) \<Rightarrow> nat \<Rightarrow> nat \<Rightarrow> DiscoveredDevice list \<times> scan_event list" where
  "scanAllDevices lan race prt timeout =
     (let prefixes = getHotspotPrefixes;
          totalIPs = length prefixes * 254;
          s = scanPrefixes lan race prt timeout totalIPs 50 254 255 prefixes emptyScan
      in (sortByResponseTime (foundDevices s), trace s))"

definition scanNetwork ::
  "lan \<Rightarrow> (string list \<Rightarrow> string list) \<Rightarrow> nat \<Rightarrow> nat \<Rightarrow> DiscoveredDevice list \<times> scan_event list" where
  "scanNetwork lan race prt timeout =
     (let prefixes = getHotspotPrefixes;
          totalIPs = length prefixes * 255;
          s = scanPrefixes lan race prt timeout totalIPs 20 255 256 prefixes emptyScan
      in (sortByResponseTime (foundDevices s), trace s))"

definition quickScan ::
  "lan \<Rightarrow> (string list \<Rightarrow> string list) \<Rightarrow> nat \<Rightarrow> nat \<Rightarrow> DiscoveredDevice list \<times> scan_event list" where
  "quickScan lan race prt timeout =
     (let quickPrefixes = [''192.168.43'', ''192.168.137'', ''192.168.49''];
          totalIPs = length quickPrefixes * 255;
          s = scanPrefixes lan race prt timeout totalIPs 30 255 256 quickPrefixes emptyScan
      in (sortByResponseTime (foundDevices s), trace s))"

definition scanSubnet ::
  "lan \<Rightarrow> (string list \<Rightarrow> string list) \<Rightarrow> string \<Rightarrow> nat \<Rightarrow> nat
     \<Rightarrow> DiscoveredDevice list \<times> scan_event list" where
  "scanSubnet lan race prefix prt timeout =
     (let s = scanRange lan race prt timeout 255 prefix 25 255 256 1 emptyScan
      in (foundDevices s, trace s))"

definition scanHotspotDevices ::
  "lan \<Rightarrow> (string list \<Rightarrow> string list) \<Rightarrow> nat \<Rightarrow> DiscoveredDevice list \<times> scan_event list" where
  "scanHotspotDevices lan race prt =
     (let prefixes = getHotspotPrefixes;
          maxIP = 30;
          totalIPs = length prefixes * maxIP;
          s = scanPrefixes lan race prt 800 totalIPs 10 maxIP (maxIP + 1) prefixes emptyScan
      in (sortByResponseTime (foundDevices s), trace s))"

text \<open>The probes in flight after a trace: those started and not yet settled.\<close>

fun isLaunched :: "scan_event \<Rightarrow> bool" where
  "isLaunched (Launched a) = True"
| "isLaunched _ = False"

fun isSettled :: "scan_event \<Rightarrow> bool" where
  "isSettled (Settled a) = True"
| "isSettled _ = False"

definition inFlight :: "scan_event list \<Rightarrow> int" where
  "inFlight tr = int (length (filter isLaunched tr)) - int (length (filter isSettled tr))"

text \<open>
  The trace of a scan is well batched for a batch size when no prefix of it has more
  probes in flight than the batch size, none is in flight when progress is reported
  (at the end of each batch), and none is in flight at its end.
\<close>

fun isProgress :: "scan_event \<Rightarrow> bool" where
  "isProgress (Progress scanned totalIPs) = True"
| "isProgress _ = False"

definition batched :: "nat \<Rightarrow> scan_event list \<Rightarrow> bool" where
  "batched batchSize tr \<longleftrightarrow>
     (\<forall>n. inFlight (take n tr) \<le> int batchSize)
     \<and> (\<forall>n < length tr. isProgress (tr ! n) \<longrightarrow> inFlight (take n tr) = 0)
     \<and> inFlight tr = 0"

section \<open>Properties of responses\<close>

text \<open>
  A response object respects the schedule rule when it does not carry a
  \<open>scheduledTime\<close> property together with \<open>success\<close> false.
\<close>

definition unscheduled :: "object \<Rightarrow> bool" where
  "unscheduled obj \<longleftrightarrow>
     (map_of obj ''success'' = Some (JBool False) \<longrightarrow> map_of obj ''scheduledTime'' = None)"

section \<open>The dispatcher's request\<close>


section \<open>Concrete inputs\<close>

text \<open>
  A host on which nothing is scheduled, so that \<open>shutdown /a\<close> fails, and every other
  command succeeds.
\<close>

definition exampleHost :: host where
  "exampleHost =
     \<lparr>exec = (\<lambda>command. if command = ''shutdown /a''
                         then Some ''Command failed: shutdown /a'' else None),
      nativeShutdown = None, nativeLogoff = None,
      now = 1700000000000, isoFormat = (\<lambda>t. ''2023-11-14T22:13:20.000Z''),
      hostname = ''DESKTOP-A'', platform = ''win32'', release = ''10.0.19045'',
      uptime = 90, totalmem = 64, freemem = 64,
      gbFixed2 = (\<lambda>bytes. ''0.00''),
      cpus = 8, localIP = ''192.168.43.100''\<rparr>"

definition exampleRequest ::
  "string \<Rightarrow> string \<Rightarrow> string option \<Rightarrow> string option \<Rightarrow> request" where
  "exampleRequest m p k hs =
     \<lparr>reqMethod = m, reqPath = p, bodyKey = k, bodyDelay = None, bodyForce = None,
      headerSecret = hs\<rparr>"

text \<open>The network on which the service with secret \<open>secret\<close> on host \<open>h\<close> answers every request.\<close>

definition reachable :: "string \<Rightarrow> host \<Rightarrow> network" where
  "reachable secret h = (\<lambda>ipAddress port req. Inr (app secret [] h req))"

text \<open>A shutdown button on the networked transport with a delay of \<open>d\<close> seconds.\<close>

definition exampleProps :: "int \<Rightarrow> props" where
  "exampleProps d =
     \<lparr>propAction = Shutdown, propIpAddress = ''192.168.43.100'', propSecretKey = ''abc'',
      propPort = 3000, propConnectionMode = Wifi, propDelay = d, propForce = False,
      propOnValidate = Some True\<rparr>"

text \<open>
  A subnet on which two hosts run the service: \<open>.254\<close> answers in 50 ms and
  \<open>.255\<close> in 10 ms.
\<close>

definition exampleLan :: lan where
  "exampleLan =
     (\<lambda>address prt timeout.
        if address = ''192.168.43.254'' then Reply (Some ''ok'') (Some ''DESKTOP-A'') 50
        else if address = ''192.168.43.255'' then Reply (Some ''ok'') (Some ''DESKTOP-B'') 10
        else NoReply)"

section \<open>The authentication guard\<close>

lemma authenticate_body:
  "bodyKey req = Some k \<Longrightarrow> k \<noteq> [] \<Longrightarrow>
   (authenticate secret req = Next) = (trim k = trim secret)"
  by (simp add: authenticate_def orElse_def Let_def)

lemma authenticate_header:
  "\<not> truthy (bodyKey req) \<Longrightarrow> headerSecret req = Some k \<Longrightarrow> k \<noteq> [] \<Longrightarrow>
   (authenticate secret req = Next) = (trim k = trim secret)"
  by (simp add: authenticate_def orElse_def Let_def)

lemma authenticate_ignores_header:
  "truthy (bodyKey req) \<Longrightarrow>
   authenticate secret (req\<lparr>headerSecret := other\<rparr>) = authenticate secret req"
  by (simp add: authenticate_def orElse_def Let_def)

lemma authenticate_empty_body:
  "bodyKey req = Some [] \<Longrightarrow>
   authenticate secret req = authenticate secret (req\<lparr>bodyKey := None\<rparr>)"
  by (simp add: authenticate_def orElse_def Let_def)

lemma authenticate_no_key:
  "\<not> truthy (bodyKey req) \<Longrightarrow> \<not> truthy (headerSecret req) \<Longrightarrow>
   authenticate secret req =
     Rejected (respond 401
       [(''success'', JBool False),
        (''error'', JString ''Authentication required. Please provide a secret key.''),
        (''code'', JString ''AUTH_REQUIRED'')])"
  by (cases "headerSecret req")
     (auto simp add: authenticate_def orElse_def Let_def split: option.splits)

lemma spread_Nil [simp]: "spread a [] = a"
  by (simp add: spread_def)

lemma serial_reject:
  "parseCommand data = Some c \<Longrightarrow> cmdKey c \<noteq> secret \<Longrightarrow>
   processCommandObject h data secret =
     [(''success'', JBool False), (''message'', JString ''Authentication failed: Invalid key'')]"
  by (simp add: processCommandObject_def processCommandVia_def createResponseObject_def)

lemma serial_accept:
  "parseCommand data = Some c \<Longrightarrow> cmdKey c = secret \<Longrightarrow>
   processCommandObject h data secret \<noteq>
     [(''success'', JBool False), (''message'', JString ''Authentication failed: Invalid key'')]"
  by (auto simp add: processCommandObject_def processCommandVia_def createResponseObject_def
        attempt_def Let_def spread_def getSystemInfo_def split: sum.splits)

text \<open>
  C1, as stated, fails. Over HTTP, with the secret \<open>" "\<close> configured, the empty
  credential is rejected although it equals the secret after trimming, in the body as
  in the header. Over the serial link the key field \<open>" abc"\<close> is rejected against the
  secret \<open>"abc"\<close> although the two are equal after trimming.
\<close>

theorem credential_trimmed_match_counterexample:
  "SECRET_KEY (Some '' '') = '' ''
   \<and> trim [] = trim '' ''
   \<and> authenticate '' '' (exampleRequest ''POST'' ''/api/sleep'' (Some []) None) \<noteq> Next
   \<and> authenticate '' '' (exampleRequest ''GET'' ''/api/status'' None (Some [])) \<noteq> Next
   \<and> parseCommand ''status: abc:x''
       = Some \<lparr>cmdAction = ''status'', cmdKey = '' abc'', cmdOptions = []\<rparr>
   \<and> trim '' abc'' = trim ''abc''
   \<and> processCommandObject exampleHost ''status: abc:x'' ''abc'' =
       [(''success'', JBool False), (''message'', JString ''Authentication failed: Invalid key'')]"
  by code_simp

text \<open>
  C1, amended. For every non-empty credential that reaches the HTTP guard, in the body
  field or (the body field being absent or empty) in the header, authentication succeeds
  if and only if the trimmed credential equals the trimmed secret, the same for both
  carriers. On the serial link a command whose key field is the configured secret is not
  answered with the authentication failure, and a command whose trimmed key field differs
  from the trimmed secret is.
\<close>

theorem credential_trimmed_match_amended:
  "(k \<noteq> [] \<and> bodyKey req1 = Some k \<longrightarrow>
      (authenticate secret req1 = Next \<longleftrightarrow> trim k = trim secret))
   \<and> (k \<noteq> [] \<and> \<not> truthy (bodyKey req2) \<and> headerSecret req2 = Some k \<longrightarrow>
      (authenticate secret req2 = Next \<longleftrightarrow> trim k = trim secret))
   \<and> (parseCommand data = Some c \<and> cmdKey c = secret \<longrightarrow>
      processCommandObject h data secret \<noteq>
        [(''success'', JBool False),
         (''message'', JString ''Authentication failed: Invalid key'')])
   \<and> (parseCommand data' = Some c' \<and> trim (cmdKey c') \<noteq> trim secret \<longrightarrow>
      processCommandObject h data' secret =
        [(''success'', JBool False),
         (''message'', JString ''Authentication failed: Invalid key'')])"
proof (intro conjI impI)
  assume "parseCommand data' = Some c' \<and> trim (cmdKey c') \<noteq> trim secret"
  then have "parseCommand data' = Some c'" and "cmdKey c' \<noteq> secret"
    by auto
  then show "processCommandObject h data' secret =
        [(''success'', JBool False),
         (''message'', JString ''Authentication failed: Invalid key'')]"
    by (rule serial_reject)
qed (simp_all add: authenticate_body authenticate_header serial_accept)

lemma parseCommand_status_abc:
  "parseCommand ''status:abc''
     = Some \<lparr>cmdAction = ''status'', cmdKey = ''abc'', cmdOptions = []\<rparr>"
  by code_simp

lemma parseCommand_status_abd:
  "parseCommand ''status:abd''
     = Some \<lparr>cmdAction = ''status'', cmdKey = ''abd'', cmdOptions = []\<rparr>"
  by code_simp

lemma trim_examples:
  "trim '' abc\<newline>'' = ''abc''" "trim ''abc'' = ''abc''" "trim ''abd'' = ''abd''"
  by code_simp+

text \<open>
  C1, amended, at concrete inputs: the credential \<open>" abc\n"\<close> against the secret
  \<open>"abc"\<close> in the body and in the header, and the serial commands \<open>status:abc\<close> and
  \<open>status:abd\<close>.
\<close>

theorem credential_trimmed_match_amended_witness:
  "authenticate ''abc'' (exampleRequest ''POST'' ''/api/sleep'' (Some '' abc\<newline>'') None) = Next
   \<and> authenticate ''abc'' (exampleRequest ''GET'' ''/api/status'' None (Some '' abc\<newline>'')) = Next
   \<and> processCommandObject exampleHost ''status:abc'' ''abc'' \<noteq>
        [(''success'', JBool False), (''message'', JString ''Authentication failed: Invalid key'')]
   \<and> processCommandObject exampleHost ''status:abd'' ''abc'' =
        [(''success'', JBool False), (''message'', JString ''Authentication failed: Invalid key'')]"
  using credential_trimmed_match_amended
          [of "'' abc\<newline>''"
              "exampleRequest ''POST'' ''/api/sleep'' (Some '' abc\<newline>'') None"
              "''abc''"
              "exampleRequest ''GET'' ''/api/status'' None (Some '' abc\<newline>'')"
              "''status:abc''" "\<lparr>cmdAction = ''status'', cmdKey = ''abc'', cmdOptions = []\<rparr>"
              exampleHost
              "''status:abd''" "\<lparr>cmdAction = ''status'', cmdKey = ''abd'', cmdOptions = []\<rparr>"]
  by (simp add: exampleRequest_def parseCommand_status_abc parseCommand_status_abd
        trim_examples)

text \<open>
  C10. In the HTTP guard a non-empty body credential decides the outcome whatever the
  header holds; an empty body credential is treated as absent, so the guard falls back
  to the header, and a non-empty header credential then decides: the request passes if
  and only if the trimmed header credential equals the trimmed secret; and with no
  header either the request is rejected with 401 \<open>AUTH_REQUIRED\<close>, whatever the
  secret, without any comparison.
\<close>

theorem authenticate_body_precedence:
  "(bodyKey req1 = Some b \<and> b \<noteq> [] \<longrightarrow>
      authenticate secret (req1\<lparr>headerSecret := other\<rparr>) = authenticate secret req1
      \<and> (authenticate secret req1 = Next \<longleftrightarrow> trim b = trim secret))
   \<and> (bodyKey req2 = Some [] \<longrightarrow>
      authenticate secret req2 = authenticate secret (req2\<lparr>bodyKey := None\<rparr>))
   \<and> (bodyKey req3 = Some [] \<and> headerSecret req3 = None \<longrightarrow>
      authenticate secret req3 =
        Rejected (respond 401
          [(''success'', JBool False),
           (''error'', JString ''Authentication required. Please provide a secret key.''),
           (''code'', JString ''AUTH_REQUIRED'')]))
   \<and> (bodyKey req4 = Some [] \<and> headerSecret req4 = Some k \<and> k \<noteq> [] \<longrightarrow>
      (authenticate secret req4 = Next \<longleftrightarrow> trim k = trim secret))"
  by (simp add: authenticate_body authenticate_header authenticate_ignores_header
        authenticate_empty_body authenticate_no_key)

text \<open>
  C10 at concrete inputs, with the secret \<open>"abc"\<close>: the body credential \<open>"abc"\<close>
  wins over the header \<open>"zzz"\<close>; with an empty body credential the header \<open>"abc"\<close>
  decides and the request passes, as it does with no body credential at all; an empty
  body credential with no header is rejected with 401.
\<close>

theorem authenticate_body_precedence_witness:
  "authenticate ''abc'' (exampleRequest ''POST'' ''/api/sleep'' (Some ''abc'') (Some ''zzz'')) = Next
   \<and> authenticate ''abc'' (exampleRequest ''POST'' ''/api/sleep'' (Some ''abc'') None) = Next
   \<and> authenticate ''abc'' (exampleRequest ''POST'' ''/api/sleep'' (Some []) (Some ''abc'')) = Next
   \<and> authenticate ''abc'' (exampleRequest ''POST'' ''/api/sleep'' None (Some ''abc'')) = Next
   \<and> authenticate ''abc'' (exampleRequest ''POST'' ''/api/sleep'' (Some []) None) =
        Rejected (respond 401
          [(''success'', JBool False),
           (''error'', JString ''Authentication required. Please provide a secret key.''),
           (''code'', JString ''AUTH_REQUIRED'')])"
  using authenticate_body_precedence
          [of "exampleRequest ''POST'' ''/api/sleep'' (Some ''abc'') (Some ''zzz'')" "''abc''"
              "''abc''" None
              "exampleRequest ''POST'' ''/api/sleep'' (Some []) (Some ''abc'')"
              "exampleRequest ''POST'' ''/api/sleep'' (Some []) None"
              "exampleRequest ''POST'' ''/api/sleep'' (Some []) (Some ''abc'')" "''abc''"]
  by (auto simp add: exampleRequest_def)

section \<open>Cancellation\<close>

lemma cancelShutdown_resolves: "cancelShutdown h = Inr ()"
  by (simp add: cancelShutdown_def split: option.splits)

lemma handleCancel_success:
  "handleCancel h req =
     respond 200 [(''success'', JBool True),
                  (''message'', JString ''Scheduled shutdown/restart cancelled'')]"
  by (simp add: handleCancel_def cancelShutdown_resolves)

text \<open>
  C2. The executor's \<open>cancelShutdown\<close> resolves whatever \<open>shutdown /a\<close> does on the
  host, so every authenticated cancel request is answered with \<open>success = true\<close>: over
  HTTP with status 200 and the message of \<open>handleCancel\<close>, over the serial link with the
  line \<open>createResponse(true, "Shutdown cancelled")\<close>.
\<close>

theorem cancel_always_succeeds:
  "cancelShutdown h = Inr ()
   \<and> (authenticate secret req = Next \<and> reqMethod req = ''POST''
        \<and> reqPath req = ''/api/cancel'' \<longrightarrow>
        app secret bt h req =
          respond 200 [(''success'', JBool True),
                       (''message'', JString ''Scheduled shutdown/restart cancelled'')])
   \<and> (parseCommand data = Some c \<and> cmdKey c = secretKey \<and> cmdAction c = ''cancel'' \<longrightarrow>
        processCommandObject h data secretKey =
          [(''success'', JBool True), (''message'', JString ''Shutdown cancelled'')]
        \<and> processCommand h data secretKey =
          stringify (JObject [(''success'', JBool True),
                              (''message'', JString ''Shutdown cancelled'')]) @ [CHR 0x0A])"
  by (auto simp add: cancelShutdown_resolves app_def guarded_def handleCancel_success
        processCommandObject_def processCommand_def processCommandVia_def attempt_def
        Let_def createResponse_def createResponseObject_def)

lemma parseCommand_cancel:
  "parseCommand ''cancel:abc\<newline>''
     = Some \<lparr>cmdAction = ''cancel'', cmdKey = ''abc'', cmdOptions = []\<rparr>"
  by code_simp

lemma exec_exampleHost:
  "exec exampleHost ''shutdown /a'' = Some ''Command failed: shutdown /a''"
  by (simp add: exampleHost_def)

text \<open>
  C2 on the host where nothing is scheduled and \<open>shutdown /a\<close> fails: the cancel request
  with the right key gets HTTP 200 with \<open>success = true\<close>, and the serial command
  \<open>cancel:abc\<close> gets the success line.
\<close>

theorem cancel_always_succeeds_witness:
  \<open>exec exampleHost ''shutdown /a'' = Some ''Command failed: shutdown /a''
   \<and> cancelShutdown exampleHost = Inr ()
   \<and> app ''abc'' [] exampleHost (exampleRequest ''POST'' ''/api/cancel'' (Some ''abc'') None) =
          respond 200 [(''success'', JBool True),
                       (''message'', JString ''Scheduled shutdown/restart cancelled'')]
   \<and> processCommand exampleHost ''cancel:abc\<newline>'' ''abc''
       = ''{"success":true,"message":"Shutdown cancelled"}\<newline>''\<close>
proof -
  have a: "authenticate ''abc'' (exampleRequest ''POST'' ''/api/cancel'' (Some ''abc'') None) = Next"
    by code_simp
  have s: \<open>stringify (JObject [(''success'', JBool True),
                               (''message'', JString ''Shutdown cancelled'')]) @ [CHR 0x0A]
           = ''{"success":true,"message":"Shutdown cancelled"}\<newline>''\<close>
    by code_simp
  show ?thesis
    using cancel_always_succeeds
          [of exampleHost "''abc''"
              "exampleRequest ''POST'' ''/api/cancel'' (Some ''abc'') None" "[]"
              "''cancel:abc\<newline>''"
              "\<lparr>cmdAction = ''cancel'', cmdKey = ''abc'', cmdOptions = []\<rparr>" "''abc''"]
          a s
    by (simp add: parseCommand_cancel exec_exampleHost exampleRequest_def)
qed

section \<open>The serial reply to a wrong key\<close>

text \<open>
  C5, as stated, fails: the reply to \<open>status:abc:\<close> under the secret \<open>xyz\<close> is not the
  line \<open>ERROR:Authentication failed: Invalid key\<close>.
\<close>

theorem serial_auth_failure_reply_counterexample:
  \<open>processCommand exampleHost ''status:abc:\<newline>'' ''xyz''
     \<noteq> ''ERROR:Authentication failed: Invalid key\<newline>''\<close>
  by code_simp

text \<open>
  C5, amended. On any host, the reply to the command line \<open>status:abc:\<close> under the
  secret \<open>xyz\<close> is the JSON line that \<open>createResponse\<close> builds, with \<open>success\<close> false
  and the message \<open>Authentication failed: Invalid key\<close>.
\<close>

theorem serial_auth_failure_reply:
  \<open>processCommand h ''status:abc:\<newline>'' ''xyz''
     = ''{"success":false,"message":"Authentication failed: Invalid key"}\<newline>''\<close>
  by code_simp

section \<open>Failed responses carry no scheduled time\<close>

lemma unscheduled_failure [simp]: "unscheduled (body (failure msg code))"
  by (simp add: unscheduled_def failure_def respond_def)

lemma unscheduled_success [simp]: "unscheduled ((''success'', JBool True) # rest)"
  by (simp add: unscheduled_def)

lemma unscheduled_handleShutdown: "unscheduled (body (handleShutdown h req))"
  by (simp add: handleShutdown_def Let_def respond_def split: sum.splits option.splits)

lemma unscheduled_handleRestart: "unscheduled (body (handleRestart h req))"
  by (simp add: handleRestart_def Let_def respond_def split: sum.splits option.splits)

lemma unscheduled_handleSleep: "unscheduled (body (handleSleep h req))"
  by (simp add: handleSleep_def respond_def split: sum.splits)

lemma unscheduled_handleHibernate: "unscheduled (body (handleHibernate h req))"
  by (simp add: handleHibernate_def respond_def split: sum.splits)

lemma unscheduled_handleCancel: "unscheduled (body (handleCancel h req))"
  by (simp add: handleCancel_def respond_def split: sum.splits)

lemma unscheduled_handleLogout: "unscheduled (body (handleLogout h req))"
  by (simp add: handleLogout_def respond_def split: sum.splits)

lemma unscheduled_handleStatus: "unscheduled (body (handleStatus h req))"
  by (simp add: handleStatus_def respond_def spread_def getSystemInfo_def unscheduled_def)

lemma unscheduled_authenticate:
  "authenticate secret req = Rejected r \<Longrightarrow> unscheduled (body r)"
  by (auto simp add: authenticate_def Let_def respond_def unscheduled_def
      split: option.splits if_splits)

lemma unscheduled_guarded:
  "(\<And>h req. unscheduled (body (handler h req))) \<Longrightarrow>
   unscheduled (body (guarded secret handler h req))"
  by (simp add: guarded_def unscheduled_authenticate split: auth_result.splits)

lemma unscheduled_app: "unscheduled (body (app secret bt h req))"
  by (simp add: app_def Let_def unscheduled_guarded unscheduled_handleShutdown
      unscheduled_handleRestart unscheduled_handleSleep unscheduled_handleHibernate
      unscheduled_handleCancel unscheduled_handleLogout unscheduled_handleStatus)
     (simp add: unscheduled_def respond_def)

lemma unscheduled_reply_False: "unscheduled (createResponseObject False message [])"
  by (simp add: createResponseObject_def unscheduled_def)

lemma unscheduled_reply_True: "unscheduled (createResponseObject True message [])"
  by (simp add: createResponseObject_def unscheduled_def)

lemma unscheduled_attempt:
  "unscheduled ok \<Longrightarrow> unscheduled (attempt createResponseObject result ok)"
  by (simp add: attempt_def unscheduled_reply_False split: sum.splits)

lemma unscheduled_processCommand: "unscheduled (processCommandObject h data secretKey)"
  by (simp add: processCommandObject_def processCommandVia_def Let_def unscheduled_attempt
      unscheduled_reply_False unscheduled_reply_True split: option.splits)
     (simp add: unscheduled_def createResponseObject_def spread_def getSystemInfo_def)

text \<open>
  C7. Whatever the request, the secret and the host, a response of the HTTP service
  whose \<open>success\<close> property is false has no \<open>scheduledTime\<close> property, and so has the
  object in a reply of the serial service.
\<close>

theorem failed_response_has_no_scheduledTime:
  "(map_of (body (app secret bt h req)) ''success'' = Some (JBool False) \<longrightarrow>
      map_of (body (app secret bt h req)) ''scheduledTime'' = None)
   \<and> (map_of (processCommandObject h data secretKey) ''success'' = Some (JBool False) \<longrightarrow>
      map_of (processCommandObject h data secretKey) ''scheduledTime'' = None)"
  using unscheduled_app [of secret bt h req] unscheduled_processCommand [of h data secretKey]
  by (simp add: unscheduled_def)

lemma wrong_key_responses:
  "body (app ''xyz'' [] exampleHost (exampleRequest ''POST'' ''/api/shutdown'' (Some ''abc'') None))
     = [(''success'', JBool False), (''error'', JString ''Invalid secret key. Access denied.''),
        (''code'', JString ''INVALID_KEY'')]"
  "processCommandObject exampleHost ''shutdown:abc:delay=30'' ''xyz''
     = [(''success'', JBool False), (''message'', JString ''Authentication failed: Invalid key'')]"
  by code_simp+

text \<open>
  C7 at concrete inputs: a shutdown request with the wrong key, over HTTP and over the
  serial link, is answered with \<open>success\<close> false and without \<open>scheduledTime\<close>.
\<close>

theorem failed_response_has_no_scheduledTime_witness:
  "map_of (body (app ''xyz'' [] exampleHost
             (exampleRequest ''POST'' ''/api/shutdown'' (Some ''abc'') None))) ''success''
     = Some (JBool False)
   \<and> map_of (body (app ''xyz'' [] exampleHost
             (exampleRequest ''POST'' ''/api/shutdown'' (Some ''abc'') None))) ''scheduledTime''
     = None
   \<and> map_of (processCommandObject exampleHost ''shutdown:abc:delay=30'' ''xyz'') ''success''
     = Some (JBool False)
   \<and> map_of (processCommandObject exampleHost ''shutdown:abc:delay=30'' ''xyz'') ''scheduledTime''
     = None"
  using failed_response_has_no_scheduledTime
          [of "''xyz''" "[]" exampleHost
              "exampleRequest ''POST'' ''/api/shutdown'' (Some ''abc'') None"
              "''shutdown:abc:delay=30''" "''xyz''"]
  by (simp add: wrong_key_responses)

section \<open>The serial codec\<close>

lemma splitBy_nonempty [simp]: "splitBy sep s \<noteq> []"
  by (induction s) (auto split: list.splits)

lemma length_splitBy: "length (splitBy sep s) = Suc (length (filter (\<lambda>c. c = sep) s))"
  by (induction s) (auto split: list.splits)

lemma splitBy_no_sep: "sep \<notin> set s \<Longrightarrow> splitBy sep s = [s]"
  by (induction s) (auto split: list.splits)

lemma splitBy_append:
  "sep \<notin> set a \<Longrightarrow> splitBy sep (a @ sep # rest) = a # splitBy sep rest"
  by (induction a) (auto split: list.splits)

lemma filter_dropWhile:
  "(\<And>x. P x \<Longrightarrow> \<not> Q x) \<Longrightarrow> filter Q (dropWhile P xs) = filter Q xs"
  by (induction xs) auto

lemma colons_trim:
  "filter (\<lambda>c. c = CHR '':'') (trim s) = filter (\<lambda>c. c = CHR '':'') s"
proof -
  have ws: "\<And>x. isWhiteSpace x \<Longrightarrow> \<not> x = CHR '':''"
    by (auto simp add: isWhiteSpace_def)
  have "filter (\<lambda>c. c = CHR '':'') (trimEnd t) = filter (\<lambda>c. c = CHR '':'') t" for t
    using filter_dropWhile [of isWhiteSpace "\<lambda>c. c = CHR '':''" "rev t", OF ws]
    by (simp add: trimEnd_def flip: rev_filter)
  then show ?thesis
    using filter_dropWhile [of isWhiteSpace "\<lambda>c. c = CHR '':''" s, OF ws]
    by (simp add: trim_def trimStart_def)
qed

lemma fields_trim:
  "length (splitBy (CHR '':'') (trim s)) = length (splitBy (CHR '':'') s)"
  by (simp add: length_splitBy colons_trim)

lemma parseCommand_None:
  "parseCommand data = None \<longleftrightarrow> length (splitBy (CHR '':'') data) < 2"
  by (simp add: parseCommand_def Let_def fields_trim)

lemma parseCommand_two_fields:
  "length (splitBy (CHR '':'') data) = 2 \<Longrightarrow>
   parseCommand data =
     Some \<lparr>cmdAction = toLowerCase (splitBy (CHR '':'') (trim data) ! 0),
            cmdKey = splitBy (CHR '':'') (trim data) ! 1, cmdOptions = []\<rparr>"
  by (simp add: parseCommand_def Let_def fields_trim)

lemma optionsString_none:
  assumes "\<forall>(n, v) \<in> set options. v = None"
  shows "optionsString options = []"
proof -
  from assms have "filter (\<lambda>(n, v). v \<noteq> None) options = []"
    by (auto simp add: filter_empty_conv)
  then show ?thesis
    by (simp add: optionsString_def)
qed

lemma commandString_no_options:
  "\<forall>(n, v) \<in> set options. v = None \<Longrightarrow>
   commandString action secretKey options = actionName action @ '':'' @ secretKey @ [CHR 0x0A]"
  by (simp add: commandString_def optionsString_none)

lemma trimStart_id: "s \<noteq> [] \<Longrightarrow> \<not> isWhiteSpace (hd s) \<Longrightarrow> trimStart s = s"
  by (cases s) (simp_all add: trimStart_def)

lemma trimEnd_newline:
  "\<not> isWhiteSpace (last s) \<Longrightarrow> s \<noteq> [] \<Longrightarrow> trimEnd (s @ [CHR 0x0A]) = s"
  by (cases s rule: rev_cases) (simp_all add: trimEnd_def isWhiteSpace_def)

lemma actionName_props:
  "actionName a \<noteq> []" "\<not> isWhiteSpace (hd (actionName a))" "CHR '':'' \<notin> set (actionName a)"
  "toLowerCase (actionName a) = actionName a"
  by (cases a; simp add: isWhiteSpace_def; code_simp)+

lemma trim_command:
  assumes "k = [] \<or> \<not> isWhiteSpace (last k)"
  shows "trim (actionName a @ '':'' @ k @ [CHR 0x0A]) = actionName a @ '':'' @ k"
proof -
  let ?s = "actionName a @ '':'' @ k"
  have ne: "?s \<noteq> []" by simp
  have "last ?s = (if k = [] then CHR '':'' else last k)"
    by simp
  with assms have nl: "\<not> isWhiteSpace (last ?s)"
    by (auto simp add: isWhiteSpace_def)
  have "hd (?s @ [CHR 0x0A]) = hd (actionName a)"
    using actionName_props(1) by simp
  then have "trimStart (?s @ [CHR 0x0A]) = ?s @ [CHR 0x0A]"
    using actionName_props(2) by (intro trimStart_id) simp_all
  then show ?thesis
    using trimEnd_newline [OF nl ne] by (simp add: trim_def)
qed

lemma parseCommand_commandString:
  assumes "\<forall>(n, v) \<in> set options. v = None"
    and "CHR '':'' \<notin> set k" and "k = [] \<or> \<not> isWhiteSpace (last k)"
  shows "parseCommand (commandString a k options) =
           Some \<lparr>cmdAction = actionName a, cmdKey = k, cmdOptions = []\<rparr>"
proof -
  have line: "trim (commandString a k options) = actionName a @ '':'' @ k"
    using commandString_no_options [OF assms(1)] trim_command [OF assms(3)] by simp
  have "splitBy (CHR '':'') (actionName a @ CHR '':'' # k) = [actionName a, k]"
    using splitBy_append [of "CHR '':''" "actionName a" k] actionName_props(3) assms(2)
    by (simp add: splitBy_no_sep)
  then have parts: "splitBy (CHR '':'') (trim (commandString a k options)) = [actionName a, k]"
    using line by simp
  show ?thesis
    unfolding parseCommand_def Let_def parts
    by (simp add: actionName_props(4))
qed

text \<open>
  C8. \<open>parseCommand\<close> accepts a line of two colon-delimited fields, with no options;
  it fails exactly on the lines of fewer than two fields; and the client writes
  \<open>action:key\<close> and a newline, with no options segment and no second colon, when no
  option has a value. What the client writes then, the server parses back (for a key
  with no colon in it and no white space at its end).
\<close>

theorem codec_options_optional:
  "(length (splitBy (CHR '':'') data) = 2 \<longrightarrow>
      parseCommand data =
        Some \<lparr>cmdAction = toLowerCase (splitBy (CHR '':'') (trim data) ! 0),
               cmdKey = splitBy (CHR '':'') (trim data) ! 1, cmdOptions = []\<rparr>)
   \<and> (parseCommand line = None \<longleftrightarrow> length (splitBy (CHR '':'') line) < 2)
   \<and> ((\<forall>(n, v) \<in> set options. v = None) \<longrightarrow>
      sendBluetoothCommand Open action secretKey options
        = Inr (actionName action @ '':'' @ secretKey @ [CHR 0x0A]))
   \<and> ((\<forall>(n, v) \<in> set options. v = None) \<and> CHR '':'' \<notin> set secretKey
        \<and> (secretKey = [] \<or> \<not> isWhiteSpace (last secretKey)) \<longrightarrow>
      parseCommand (commandString action secretKey options)
        = Some \<lparr>cmdAction = actionName action, cmdKey = secretKey, cmdOptions = []\<rparr>)"
proof (intro conjI impI)
  assume "(\<forall>(n, v) \<in> set options. v = None) \<and> CHR '':'' \<notin> set secretKey
        \<and> (secretKey = [] \<or> \<not> isWhiteSpace (last secretKey))"
  then show "parseCommand (commandString action secretKey options)
        = Some \<lparr>cmdAction = actionName action, cmdKey = secretKey, cmdOptions = []\<rparr>"
    by (intro parseCommand_commandString) simp_all
qed (simp_all add: parseCommand_two_fields parseCommand_None commandString_no_options
      sendBluetoothCommand_def)

lemma codec_examples:
  "length (splitBy (CHR '':'') ''Status:abc\<newline>'') = 2"
  "splitBy (CHR '':'') (trim ''Status:abc\<newline>'') = [''Status'', ''abc'']"
  "toLowerCase ''Status'' = ''status''"
  "length (splitBy (CHR '':'') ''status\<newline>'') < 2"
  "parseCommand ''cancel:abc\<newline>''
     = Some \<lparr>cmdAction = ''cancel'', cmdKey = ''abc'', cmdOptions = []\<rparr>"
  by code_simp+

text \<open>
  C8 at concrete inputs: \<open>Status:abc\<close> is parsed, \<open>status\<close> alone is not, and the
  cancel command with the key \<open>abc\<close> and no option (an empty object, or one whose
  \<open>delay\<close> is undefined) is \<open>cancel:abc\<close> and a newline, which is parsed back.
\<close>

theorem codec_options_optional_witness:
  "parseCommand ''Status:abc\<newline>''
     = Some \<lparr>cmdAction = ''status'', cmdKey = ''abc'', cmdOptions = []\<rparr>
   \<and> parseCommand ''status\<newline>'' = None
   \<and> sendBluetoothCommand Open Cancel ''abc'' [(''delay'', None)] = Inr ''cancel:abc\<newline>''
   \<and> parseCommand (commandString Cancel ''abc'' [(''delay'', None)])
     = Some \<lparr>cmdAction = ''cancel'', cmdKey = ''abc'', cmdOptions = []\<rparr>"
  using codec_options_optional
          [of "''Status:abc\<newline>''" "''status\<newline>''" "[(''delay'', None)]" Cancel "''abc''"]
  by (simp add: codec_examples isWhiteSpace_def)

section \<open>The dispatcher\<close>

lemma handlePress_counting:
  "isCountingDown s \<Longrightarrow> handlePress p s = cancelCountdown s"
  by (simp add: handlePress_def)

lemma step_quiet:
  "\<not> countdownRef s \<Longrightarrow> \<not> isProcessing s \<Longrightarrow> e \<noteq> Press \<Longrightarrow> step p s e = s"
  by (cases e) (simp_all add: tick_def)

lemma run_quiet:
  "\<not> countdownRef s \<Longrightarrow> \<not> isProcessing s \<Longrightarrow> Press \<notin> set events \<Longrightarrow> run p s events = s"
proof (induction events)
  case Nil
  then show ?case by (simp add: run_def)
next
  case (Cons e events)
  then have "step p s e = s"
    by (intro step_quiet) auto
  with Cons show ?case
    by (simp add: run_def)
qed

text \<open>
  C3. A press while the button is counting down cancels the countdown: the button is
  idle again, no call has been handed to a transport and no alert shown, and from then
  on neither the timer nor a settling promise changes anything, so that the pending
  action is never sent unless the button is pressed again.
\<close>

theorem press_while_counting_cancels:
  assumes "phaseOf s = CountingDown"
  shows "phaseOf (step p s Press) = Idle
         \<and> calls (step p s Press) = calls s
         \<and> alerts (step p s Press) = alerts s
         \<and> (\<forall>events. Press \<notin> set events \<longrightarrow>
               run p (step p s Press) events = step p s Press)"
proof -
  from assms have c: "isCountingDown s" and np: "\<not> isProcessing s"
    by (auto simp add: phaseOf_def split: if_splits)
  have "\<not> countdownRef (cancelCountdown s)" and "\<not> isProcessing (cancelCountdown s)"
    using np by (simp_all add: cancelCountdown_def)
  then have "\<forall>events. Press \<notin> set events \<longrightarrow>
               run p (cancelCountdown s) events = cancelCountdown s"
    by (simp add: run_quiet)
  then show ?thesis
    using np c by (simp add: handlePress_counting cancelCountdown_def phaseOf_def)
qed

lemma run_append: "run p s (xs @ ys) = run p (run p s xs) ys"
  by (simp add: run_def)

lemma run_Cons: "run p s (e # es) = run p (step p s e) es"
  by (simp add: run_def)

lemma run_Nil: "run p s [] = s"
  by (simp add: run_def)

lemma counting_example:
  "run (exampleProps 5) initial [Press, Tick, Tick] =
     \<lparr>isProcessing = False, isCountingDown = True, countdown = 3, countdownRef = True,
      calls = [], alerts = []\<rparr>"
  by (simp add: run_def initial_def exampleProps_def handlePress_def startCountdown_def tick_def)

text \<open>
  C3 at a concrete input: a shutdown button with a delay of five seconds, pressed and
  left for two seconds, is counting down; pressed again it is idle, with no call made
  and no alert shown, and four more seconds change nothing.
\<close>

theorem press_while_counting_cancels_witness:
  "phaseOf (run (exampleProps 5) initial [Press, Tick, Tick]) = CountingDown
   \<and> phaseOf (run (exampleProps 5) initial [Press, Tick, Tick, Press]) = Idle
   \<and> calls (run (exampleProps 5) initial [Press, Tick, Tick, Press]) = []
   \<and> alerts (run (exampleProps 5) initial [Press, Tick, Tick, Press]) = []
   \<and> run (exampleProps 5) initial ([Press, Tick, Tick, Press] @ [Tick, Tick, Tick, Tick])
       = run (exampleProps 5) initial [Press, Tick, Tick, Press]"
proof -
  let ?s = "run (exampleProps 5) initial [Press, Tick, Tick]"
  have c: "phaseOf ?s = CountingDown"
    by (simp add: counting_example phaseOf_def)
  have r: "run (exampleProps 5) initial ([Press, Tick, Tick] @ Press # events)
             = run (exampleProps 5) (step (exampleProps 5) ?s Press) events" for events
    by (simp only: run_append run_Cons)
  have q: "Press \<notin> set [Tick, Tick, Tick, Tick]"
    by simp
  show ?thesis
    using press_while_counting_cancels [OF c, of "exampleProps 5"] r [of "[]"]
      r [of "[Tick, Tick, Tick, Tick]"] q c
    by (simp add: counting_example run_Nil)
qed













text \<open>
  Over the serial link the same request is the line \<open>shutdown:abc:delay=0,force=false\<close>,
  which the serial service answers with its own immediate-execution message.
\<close>

lemma serial_immediate_shutdown:
  \<open>sendBluetoothCommand Open Shutdown ''abc''
      [(''delay'', Some (OptNumber 0)), (''force'', Some (OptBool False))]
     = Inr ''shutdown:abc:delay=0,force=false\<newline>''\<close>
  \<open>processCommand exampleHost ''shutdown:abc:delay=0,force=false\<newline>'' ''abc''
     = ''{"success":true,"message":"PC is shutting down..."}\<newline>''\<close>
  by code_simp+


section \<open>The discovery scanner\<close>

lemma sorted_sortByResponseTime: "sorted (map responseTime (sortByResponseTime xs))"
  by (simp add: sortByResponseTime_def)

lemma scanners_sorted:
  "sorted (map responseTime (fst (scanAllDevices lan race prt timeout)))"
  "sorted (map responseTime (fst (scanNetwork lan race prt timeout)))"
  "sorted (map responseTime (fst (quickScan lan race prt timeout)))"
  "sorted (map responseTime (fst (scanHotspotDevices lan race prt)))"
  by (simp_all add: scanAllDevices_def scanNetwork_def quickScan_def scanHotspotDevices_def
        Let_def sorted_sortByResponseTime)

text \<open>
  C4 fails on \<open>scanSubnet\<close>, which returns the devices in the order of their
  addresses: on the subnet where \<open>.254\<close> answers in 50 ms and \<open>.255\<close> in 10 ms it
  returns the slower device first. (The other four scanners sort before returning, see
  \<open>scanners_sorted\<close>.)
\<close>

theorem scanSubnet_unsorted:
  "fst (scanSubnet exampleLan (\<lambda>batch. batch) ''192.168.43'' 3000 1500) =
     [\<lparr>ip = ''192.168.43.254'', port = 3000, deviceName = Some ''DESKTOP-A'',
       responseTime = 50, hasService = True\<rparr>,
      \<lparr>ip = ''192.168.43.255'', port = 3000, deviceName = Some ''DESKTOP-B'',
       responseTime = 10, hasService = True\<rparr>]
   \<and> \<not> sorted (map responseTime
                (fst (scanSubnet exampleLan (\<lambda>batch. batch) ''192.168.43'' 3000 1500)))"
  by code_simp

lemma inFlight_append: "inFlight (xs @ ys) = inFlight xs + inFlight ys"
  by (simp add: inFlight_def)

lemma inFlight_Nil [simp]: "inFlight [] = 0"
  by (simp add: inFlight_def)

lemma inFlight_Launched: "inFlight (map Launched xs) = int (length xs)"
  by (induction xs) (simp_all add: inFlight_def)

lemma inFlight_Settled: "inFlight (map Settled xs) = - int (length xs)"
  by (induction xs) (simp_all add: inFlight_def)

lemma inFlight_Progress [simp]: "inFlight [Progress a b] = 0"
  by (simp add: inFlight_def)

lemma batch_events_bounded:
  assumes "length settledOrder = length batch"
  shows "inFlight (take n (map Launched batch @ map Settled settledOrder @ [Progress a b]))
           \<le> int (length batch)"
    and "inFlight (take n (map Launched batch @ map Settled settledOrder @ [Progress a b])) \<ge> 0"
proof -
  let ?ev = "map Launched batch @ map Settled settledOrder @ [Progress a b]"
  have L: "inFlight (take n (map Launched batch)) = int (min n (length batch))"
    by (simp add: take_map inFlight_Launched)
  have S: "inFlight (take m (map Settled settledOrder)) = - int (min m (length settledOrder))" for m
    by (simp add: take_map inFlight_Settled)
  have P: "inFlight (take m [Progress a b]) = 0" for m
    by (cases m) simp_all
  have "inFlight (take n ?ev) = int (min n (length batch))
          - int (min (n - length batch) (length settledOrder))"
    by (simp add: inFlight_append L S P)
  then show "inFlight (take n ?ev) \<le> int (length batch)" and "inFlight (take n ?ev) \<ge> 0"
    using assms by auto
qed


lemma batch_events_end:
  assumes "length settledOrder = length batch"
  shows "inFlight (map Launched batch @ map Settled settledOrder @ [Progress a b]) = 0"
  using assms by (simp add: inFlight_append inFlight_Launched inFlight_Settled)

lemma batch_events_progress:
  assumes "length settledOrder = length batch"
    and "m < length (map Launched batch @ map Settled settledOrder @ [Progress a b])"
    and "isProgress ((map Launched batch @ map Settled settledOrder @ [Progress a b]) ! m)"
  shows "inFlight (take m (map Launched batch @ map Settled settledOrder @ [Progress a b])) = 0"
proof -
  have "m = length batch + length settledOrder"
  proof (rule ccontr)
    assume "m \<noteq> length batch + length settledOrder"
    with assms(2) have lt: "m < length batch + length settledOrder"
      by simp
    show False
    proof (cases "m < length batch")
      case True
      with assms(3) show False
        by (simp add: nth_append)
    next
      case False
      with lt have "m - length batch < length settledOrder"
        by arith
      with False assms(3) show False
        by (simp add: nth_append)
    qed
  qed
  then show ?thesis
    using assms(1) by (simp add: inFlight_append inFlight_Launched inFlight_Settled)
qed

lemma batched_append:
  assumes "batched batchSize tr" and "length batch \<le> batchSize"
    and "length settledOrder = length batch"
  shows "batched batchSize (tr @ map Launched batch @ map Settled settledOrder @ [Progress a b])"
proof -
  let ?ev = "map Launched batch @ map Settled settledOrder @ [Progress a b]"
  from assms(1) have b1: "\<And>n. inFlight (take n tr) \<le> int batchSize"
    and b2: "\<And>n. n < length tr \<Longrightarrow> isProgress (tr ! n) \<Longrightarrow> inFlight (take n tr) = 0"
    and b3: "inFlight tr = 0"
    by (simp_all add: batched_def)
  have p1: "inFlight (take n (tr @ ?ev)) \<le> int batchSize" for n
  proof (cases "n \<le> length tr")
    case True
    then show ?thesis using b1 [of n] by (simp add: inFlight_append)
  next
    case False
    then have "inFlight (take n (tr @ ?ev)) = inFlight (take (n - length tr) ?ev)"
      using b3 by (simp add: inFlight_append)
    then show ?thesis
      using batch_events_bounded(1) [OF assms(3), of "n - length tr" a b] assms(2) by simp
  qed
  have p2: "inFlight (take n (tr @ ?ev)) = 0"
    if "n < length (tr @ ?ev)" and "isProgress ((tr @ ?ev) ! n)" for n
  proof (cases "n < length tr")
    case True
    with that b2 [of n] show ?thesis
      by (simp add: nth_append inFlight_append)
  next
    case False
    with that have "n - length tr < length ?ev" and "isProgress (?ev ! (n - length tr))"
      by (simp_all add: nth_append)
    then have "inFlight (take (n - length tr) ?ev) = 0"
      by (rule batch_events_progress [OF assms(3)])
    with False b3 show ?thesis
      by (simp add: inFlight_append)
  qed
  have p3: "inFlight (tr @ ?ev) = 0"
    using b3 batch_events_end [OF assms(3), of a b] by (simp add: inFlight_append)
  show ?thesis
    unfolding batched_def using p1 p2 p3 by blast
qed

lemma trace_runBatch:
  "trace (runBatch lan race prt timeout totalIPs batch s) =
     trace s @ map Launched batch @ map Settled (race batch)
       @ [Progress (scannedCount s + length batch) totalIPs]"
  by (simp add: runBatch_def Let_def)

lemma length_batchAddresses:
  "length (batchAddresses prefix start batchSize limit) \<le> batchSize"
  by (simp add: batchAddresses_def)

lemma batched_scanRange:
  "\<forall>b. mset (race b) = mset b \<Longrightarrow> batched batchSize (trace s) \<Longrightarrow>
   batched batchSize
     (trace (scanRange lan race prt timeout totalIPs prefix batchSize final limit start s))"
proof (induction lan race prt timeout totalIPs prefix batchSize final limit start s
        rule: scanRange.induct)
  case (1 lan race prt timeout totalIPs prefix batchSize final limit start s)
  show ?case
  proof (cases "start \<le> final \<and> 0 < batchSize")
    case True
    let ?batch = "batchAddresses prefix start batchSize limit"
    have "length (race ?batch) = length ?batch"
      using "1.prems"(1) by (intro mset_eq_length) simp
    then have "batched batchSize (trace (runBatch lan race prt timeout totalIPs ?batch s))"
      using "1.prems"(2) length_batchAddresses [of prefix start batchSize limit]
      by (simp add: trace_runBatch batched_append)
    then have "batched batchSize
                 (trace (scanRange lan race prt timeout totalIPs prefix batchSize final limit
                           (start + batchSize)
                           (runBatch lan race prt timeout totalIPs ?batch s)))"
      using True "1.prems"(1) by (intro "1.IH") simp_all
    moreover have "scanRange lan race prt timeout totalIPs prefix batchSize final limit start s
             = scanRange lan race prt timeout totalIPs prefix batchSize final limit
                 (start + batchSize) (runBatch lan race prt timeout totalIPs ?batch s)"
      using True by (subst scanRange.simps) simp
    ultimately show ?thesis
      by simp
  next
    case False
    then have "scanRange lan race prt timeout totalIPs prefix batchSize final limit start s = s"
      by (subst scanRange.simps) auto
    then show ?thesis
      using "1.prems"(2) by simp
  qed
qed

lemma batched_scanPrefixes:
  "\<forall>b. mset (race b) = mset b \<Longrightarrow> batched batchSize (trace s) \<Longrightarrow>
   batched batchSize
     (trace (scanPrefixes lan race prt timeout totalIPs batchSize final limit prefixes s))"
  unfolding scanPrefixes_def
proof (induction prefixes arbitrary: s)
  case Nil
  then show ?case by simp
next
  case (Cons prefix prefixes)
  have "batched batchSize
          (trace (scanRange lan race prt timeout totalIPs prefix batchSize final limit 1 s))"
    using Cons.prems by (rule batched_scanRange)
  then have "batched batchSize
          (trace (foldl (\<lambda>acc prefix. scanRange lan race prt timeout totalIPs prefix batchSize
                                      final limit 1 acc)
                   (scanRange lan race prt timeout totalIPs prefix batchSize final limit 1 s)
                   prefixes))"
    by (rule Cons.IH [OF Cons.prems(1)])
  then show ?case
    by (simp only: foldl_Cons)
qed

lemma batched_emptyScan: "batched batchSize (trace emptyScan)"
  by (simp add: batched_def emptyScan_def)

lemma scanners_batched:
  assumes "\<forall>b. mset (race b) = mset b"
  shows "batched 50 (snd (scanAllDevices lan race prt timeout))"
    and "batched 20 (snd (scanNetwork lan race prt timeout))"
    and "batched 30 (snd (quickScan lan race prt timeout))"
    and "batched 25 (snd (scanSubnet lan race prefix prt timeout))"
    and "batched 10 (snd (scanHotspotDevices lan race prt))"
  unfolding scanAllDevices_def scanNetwork_def quickScan_def scanSubnet_def
    scanHotspotDevices_def Let_def snd_conv
  by (intro batched_scanPrefixes batched_scanRange batched_emptyScan assms)+

text \<open>
  C9. Provided each probe of a batch settles exactly once (\<open>race\<close> gives the order in
  which the probes of a batch settle, a permutation of the batch), the trace of every
  scanner is well batched for its batch size: at no moment are more probes in flight
  than the batch size, and none is in flight when a batch ends and the next begins. No
  batch holds more addresses than the batch size.
\<close>

theorem probes_in_flight_bounded:
  assumes "\<forall>b. mset (race b) = mset b"
  shows "batched 50 (snd (scanAllDevices lan race prt timeout))
         \<and> batched 20 (snd (scanNetwork lan race prt timeout))
         \<and> batched 30 (snd (quickScan lan race prt timeout))
         \<and> batched 25 (snd (scanSubnet lan race prefix prt timeout))
         \<and> batched 10 (snd (scanHotspotDevices lan race prt))
         \<and> length (batchAddresses prefix start batchSize limit) \<le> batchSize"
  using scanners_batched [OF assms] length_batchAddresses by blast

lemma scanSubnet_in_flight:
  "inFlight (take 25 (snd (scanSubnet exampleLan rev ''192.168.43'' 3000 1500))) = 25"
  "inFlight (take 30 (snd (scanSubnet exampleLan rev ''192.168.43'' 3000 1500))) = 20"
  "snd (scanSubnet exampleLan rev ''192.168.43'' 3000 1500) ! 50 = Progress 25 255"
  "snd (scanSubnet exampleLan rev ''192.168.43'' 3000 1500) ! 51 = Launched ''192.168.43.26''"
  by code_simp+

text \<open>
  C9 at a concrete input: a scan of one subnet in which the probes of each batch settle
  in reverse order. After the 25 probes of the first batch have been started, 25 are in
  flight; no prefix of the trace has more; when progress is first reported, at position
  50, none is, and the next probe starts after that.
\<close>

theorem probes_in_flight_bounded_witness:
  "(\<forall>b :: string list. mset (rev b) = mset b)
   \<and> inFlight (take 25 (snd (scanSubnet exampleLan rev ''192.168.43'' 3000 1500))) = 25
   \<and> (\<forall>n. inFlight (take n (snd (scanSubnet exampleLan rev ''192.168.43'' 3000 1500))) \<le> 25)
   \<and> snd (scanSubnet exampleLan rev ''192.168.43'' 3000 1500) ! 50 = Progress 25 255
   \<and> inFlight (take 50 (snd (scanSubnet exampleLan rev ''192.168.43'' 3000 1500))) = 0
   \<and> snd (scanSubnet exampleLan rev ''192.168.43'' 3000 1500) ! 51 = Launched ''192.168.43.26''"
proof -
  have perm: "\<forall>b :: string list. mset (rev b) = mset b"
    by simp
  have len: "50 < length (snd (scanSubnet exampleLan rev ''192.168.43'' 3000 1500))"
    by code_simp
  show ?thesis
    using probes_in_flight_bounded [OF perm, of exampleLan 3000 1500 "''192.168.43''"]
      scanSubnet_in_flight len
    by (auto simp add: batched_def)
qed

end
